theory Spec2Isabelle
  imports Main "HOL-Library.Sublist" "HOL-Library.Word"
begin

section \<open>JavaScript strings\<close>

text \<open>
  A JavaScript string is a sequence of UTF-16 code units; \<open>length\<close> counts code units,
  as \<open>String.prototype.length\<close> does. String literals of the source are written
  \<open>str ''...''\<close>.
\<close>

type_synonym jchar = nat
type_synonym jstring = "jchar list"

definition str :: "string \<Rightarrow> jstring" where
  "str s = map of_char s"

text \<open>\<open>Array.prototype.join\<close> on an array of strings.\<close>

fun join :: "jstring \<Rightarrow> jstring list \<Rightarrow> jstring" where
  "join sep [] = []"
| "join sep [x] = x"
| "join sep (x # y # ys) = x @ sep @ join sep (y # ys)"

text \<open>\<open>String.prototype.repeat\<close> with a non-negative count.\<close>

definition repeat :: "jstring \<Rightarrow> nat \<Rightarrow> jstring" where
  "repeat s n = concat (replicate n s)"

text \<open>\<open>String.prototype.split\<close> with a one-character separator: \<open>''''.split(c)\<close> is \<open>['''']\<close>.\<close>

fun split :: "jchar \<Rightarrow> jstring \<Rightarrow> jstring list" where
  "split c [] = [[]]"
| "split c (x # xs) =
     (if x = c then [] # split c xs
      else (case split c xs of [] \<Rightarrow> [[x]] | l # ls \<Rightarrow> (x # l) # ls))"

text \<open>\<open>String.prototype.includes\<close> and \<open>startsWith\<close>.\<close>

fun str_includes :: "jstring \<Rightarrow> jstring \<Rightarrow> bool" where
  "str_includes [] p = (p = [])"
| "str_includes (x # xs) p = (prefix p (x # xs) \<or> str_includes xs p)"

definition startsWith :: "jstring \<Rightarrow> jstring \<Rightarrow> bool" where
  "startsWith s p = prefix p s"

text \<open>
  The code units that \<open>trim\<close> removes and that \<open>\s\<close> matches: ECMAScript WhiteSpace and
  LineTerminator.
\<close>

definition isWhiteSpace :: "jchar \<Rightarrow> bool" where
  "isWhiteSpace c =
     ((9 \<le> c \<and> c \<le> 13) \<or> c = 32 \<or> c = 160 \<or> c = 5760 \<or> (8192 \<le> c \<and> c \<le> 8202)
      \<or> c = 8232 \<or> c = 8233 \<or> c = 8239 \<or> c = 8287 \<or> c = 12288 \<or> c = 65279)"

definition trim :: "jstring \<Rightarrow> jstring" where
  "trim s = rev (dropWhile isWhiteSpace (rev (dropWhile isWhiteSpace s)))"

text \<open>
  \<open>toLowerCase\<close>: the letters A to Z are lowered. Other code units are kept; the callers
  only compare the result with lower-case ASCII keys, none of which is the image of a
  string holding a non-ASCII code unit.
\<close>

definition toLowerCase :: "jstring \<Rightarrow> jstring" where
  "toLowerCase s = map (\<lambda>c. if 65 \<le> c \<and> c \<le> 90 then c + 32 else c) s"

text \<open>Decimal rendering of a non-negative integer, as template literals print it.\<close>

function String_nat :: "nat \<Rightarrow> jstring" where
  "String_nat n = (if n < 10 then [48 + n] else String_nat (n div 10) @ [48 + n mod 10])"
  by pat_completeness auto
termination
  by (relation "measure id") auto

declare String_nat.simps [simp del]

definition String_int :: "int \<Rightarrow> jstring" where
  "String_int i = (if i < 0 then str ''-'' @ String_nat (nat (- i)) else String_nat (nat i))"

section \<open>Document model (types)\<close>

datatype InputFormat =
  PDF | DOCX | PPTX | XLSX | HTML | VTT | SRT | IMAGE | CSV | JSON | TEXT | XML | RSS
  | ATOM | ZIP | YOUTUBE | BING_SERP | IPYNB

datatype DocumentItemType =
  TEXT | TITLE | HEADING | PARAGRAPH | LIST | LIST_ITEM | TABLE | TABLE_CELL | IMAGE | CODE
  | FORMULA | CAPTION | SECTION | SUBTITLE

datatype ConversionStatus = SUCCESS | FAILURE | PARTIAL_SUCCESS

text \<open>
  Values stored under the string keys of a metadata object: the primitive values, a
  number being an integer.
\<close>

datatype jsval = JUndefined | JNull | JBool bool | JNum int | JStr jstring

definition truthy :: "jsval \<Rightarrow> bool" where
  "truthy v = (case v of JUndefined \<Rightarrow> False | JNull \<Rightarrow> False | JBool b \<Rightarrow> b
                 | JNum n \<Rightarrow> n \<noteq> 0 | JStr s \<Rightarrow> s \<noteq> [])"

definition String_val :: "jsval \<Rightarrow> jstring" where
  "String_val v = (case v of JUndefined \<Rightarrow> str ''undefined'' | JNull \<Rightarrow> str ''null''
                 | JBool b \<Rightarrow> (if b then str ''true'' else str ''false'')
                 | JNum n \<Rightarrow> String_int n | JStr s \<Rightarrow> s)"

type_synonym Record = "(string \<times> jsval) list"

record Formatting =
  bold :: bool
  italic :: bool
  underline :: bool
  strikethrough :: bool

record TableCell =
  cell_text :: jstring
  rowSpan :: "nat option"
  colSpan :: "nat option"
  isHeader :: "bool option"

text \<open>
  \<open>DocumentItem\<close> with the fields of its \<open>TableItem\<close> extension; an optional field
  that is absent is \<open>None\<close>. A heading depth is a positive integer in every backend;
  \<open>item_level\<close> ranges over the non-negative integers.
\<close>

datatype DocumentItem =
  DocumentItem
    (item_type: DocumentItemType)
    (item_text: "jstring option")
    (item_level: "nat option")
    (item_formatting: "Formatting option")
    (item_children: "DocumentItem list option")
    (item_metadata: "Record option")
    (item_rows: "TableCell list list option")
    (item_numRows: "nat option")
    (item_numCols: "nat option")

record Document =
  doc_metadata :: Record
  doc_content :: "DocumentItem list"

record ConversionResult =
  status :: ConversionStatus
  document :: "Document option"
  json_content :: "DocumentItem list option"
  markdown_content :: "jstring option"
  errors :: "jstring list option"
  warnings :: "jstring list option"

section \<open>Markdown exporter\<close>

datatype HeadingStyle = atx | setext
datatype CodeBlockStyle = fenced | indented


record MarkdownExporter =
  includeMetadata :: bool
  headingStyle :: HeadingStyle
  bulletChar :: jstring
  codeBlockStyle :: CodeBlockStyle
  preserveFormatting :: bool



text \<open>\<open>item.text || ''\<close>\<close>

definition text_or_empty :: "jstring option \<Rightarrow> jstring" where
  "text_or_empty t = (case t of None \<Rightarrow> [] | Some s \<Rightarrow> s)"

text \<open>\<open>item.level || 1\<close>: an absent level and level 0 both give 1.\<close>

definition level_or_1 :: "nat option \<Rightarrow> nat" where
  "level_or_1 l = (case l of None \<Rightarrow> 1 | Some n \<Rightarrow> if n = 0 then 1 else n)"

definition exportHeading :: "MarkdownExporter \<Rightarrow> DocumentItem \<Rightarrow> jstring" where
  "exportHeading this item =
     (let level = level_or_1 (item_level item);
          text = text_or_empty (item_text item)
      in if headingStyle this = atx then repeat (str ''#'') level @ str '' '' @ text
         else if level = 1 then text @ [10] @ repeat (str ''='') (length text)
         else if level = 2 then text @ [10] @ repeat (str ''-'') (length text)
         else repeat (str ''#'') level @ str '' '' @ text)"

definition exportTitle :: "MarkdownExporter \<Rightarrow> DocumentItem \<Rightarrow> jstring" where
  "exportTitle this item = str ''# '' @ text_or_empty (item_text item)"

definition exportText :: "MarkdownExporter \<Rightarrow> DocumentItem \<Rightarrow> jstring" where
  "exportText this item =
     (let text = text_or_empty (item_text item)
      in case (if preserveFormatting this then item_formatting item else None) of
           None \<Rightarrow> text
         | Some f \<Rightarrow>
             (let text = (if bold f then str ''**'' @ text @ str ''**'' else text);
                  text = (if italic f then str ''*'' @ text @ str ''*'' else text);
                  text = (if strikethrough f then str ''~~'' @ text @ str ''~~'' else text)
              in text))"

definition exportListItem :: "MarkdownExporter \<Rightarrow> DocumentItem \<Rightarrow> nat \<Rightarrow> jstring" where
  "exportListItem this item level =
     repeat (str ''  '') level @ bulletChar this @ str '' '' @ text_or_empty (item_text item)"

text \<open>One table line: the cells' texts joined by \<open>'' | ''\<close> between \<open>''| ''\<close> and \<open>'' |''\<close>.\<close>

definition table_line :: "jstring list \<Rightarrow> jstring" where
  "table_line cells = str ''| '' @ join (str '' | '') cells @ str '' |''"

definition exportTable :: "MarkdownExporter \<Rightarrow> DocumentItem \<Rightarrow> jstring" where
  "exportTable this item =
     (case (case item_rows item of None \<Rightarrow> [] | Some rs \<Rightarrow> rs) of
        [] \<Rightarrow> []
      | row0 # data \<Rightarrow>
          join [10]
            (table_line (map cell_text row0)
             # table_line (map (\<lambda>cell. str ''---'') row0)
             # map (\<lambda>row. table_line (map cell_text row)) data))"

definition exportCode :: "MarkdownExporter \<Rightarrow> DocumentItem \<Rightarrow> jstring" where
  "exportCode this item =
     (let code = text_or_empty (item_text item)
      in if codeBlockStyle this = fenced then str ''```'' @ [10] @ code @ [10] @ str ''```''
         else join [10] (map (\<lambda>line. str ''    '' @ line) (split 10 code)))"

definition exportFormula :: "MarkdownExporter \<Rightarrow> DocumentItem \<Rightarrow> jstring" where
  "exportFormula this item = str ''$$'' @ text_or_empty (item_text item) @ str ''$$''"

text \<open>\<open>item.metadata?.key\<close>\<close>

definition metadata_get :: "Record option \<Rightarrow> string \<Rightarrow> jsval" where
  "metadata_get m key =
     (case m of None \<Rightarrow> JUndefined
      | Some r \<Rightarrow> (case map_of r key of None \<Rightarrow> JUndefined | Some v \<Rightarrow> v))"

definition exportImage :: "MarkdownExporter \<Rightarrow> DocumentItem \<Rightarrow> jstring" where
  "exportImage this item =
     (let alt = (if truthy (metadata_get (item_metadata item) ''alt'')
                 then String_val (metadata_get (item_metadata item) ''alt'')
                 else text_or_empty (item_text item));
          src = (if truthy (metadata_get (item_metadata item) ''src'')
                 then String_val (metadata_get (item_metadata item) ''src'')
                 else [])
      in str ''!['' @ alt @ str '']('' @ src @ str '')'')"

text \<open>
  \<open>exportItem\<close>, \<open>exportContent\<close>, \<open>exportList\<close> and \<open>exportSection\<close> call each other.
  \<open>exportItems\<close> is \<open>items.map((item) => this.exportItem(item, level))\<close> and
  \<open>exportListChildren\<close> is the \<open>children.map((child, index) => ...)\<close> of \<open>exportList\<close>,
  with the index of the first element of the list as an argument.
\<close>

function (sequential) exportItem :: "MarkdownExporter \<Rightarrow> DocumentItem \<Rightarrow> nat \<Rightarrow> jstring"
  and exportItems :: "MarkdownExporter \<Rightarrow> DocumentItem list \<Rightarrow> nat \<Rightarrow> jstring list"
  and exportContent :: "MarkdownExporter \<Rightarrow> DocumentItem list \<Rightarrow> nat \<Rightarrow> jstring"
  and exportList :: "MarkdownExporter \<Rightarrow> DocumentItem \<Rightarrow> nat \<Rightarrow> jstring"
  and exportListChildren ::
    "MarkdownExporter \<Rightarrow> bool \<Rightarrow> nat \<Rightarrow> nat \<Rightarrow> DocumentItem list \<Rightarrow> jstring list"
  and exportSection :: "MarkdownExporter \<Rightarrow> DocumentItem \<Rightarrow> nat \<Rightarrow> jstring"
where
  "exportItem this (DocumentItem ty tx lv fm ch md rw nr nc) level =
     (let item = DocumentItem ty tx lv fm ch md rw nr nc
      in case ty of
           HEADING \<Rightarrow> exportHeading this item
         | TITLE \<Rightarrow> exportTitle this item
         | PARAGRAPH \<Rightarrow> exportText this item
         | DocumentItemType.TEXT \<Rightarrow> exportText this item
         | LIST \<Rightarrow> exportList this (DocumentItem ty tx lv fm ch md rw nr nc) level
         | LIST_ITEM \<Rightarrow> exportListItem this item level
         | TABLE \<Rightarrow> exportTable this item
         | CODE \<Rightarrow> exportCode this item
         | FORMULA \<Rightarrow> exportFormula this item
         | DocumentItemType.IMAGE \<Rightarrow> exportImage this item
         | SECTION \<Rightarrow> exportSection this (DocumentItem ty tx lv fm ch md rw nr nc) level
         | _ \<Rightarrow> text_or_empty tx)"
| "exportItems this [] level = []"
| "exportItems this (item # items) level =
     exportItem this item level # exportItems this items level"
| "exportContent this items level = join [10, 10] (exportItems this items level)"
| "exportList this (DocumentItem ty tx lv fm ch md rw nr nc) level =
     (let isOrdered = (metadata_get md ''ordered'' = JBool True);
          children = (case ch of None \<Rightarrow> [] | Some cs \<Rightarrow> cs)
      in join [10] (exportListChildren this isOrdered level 0 children))"
| "exportListChildren this isOrdered level index [] = []"
| "exportListChildren this isOrdered level index
     (DocumentItem ty tx lv fm ch md rw nr nc # rest) =
     (let prefix = (if isOrdered then String_nat (index + 1) @ str ''.'' else bulletChar this);
          indent = repeat (str ''  '') level;
          text = text_or_empty tx;
          result = indent @ prefix @ str '' '' @ text;
          result = (case ch of
                      None \<Rightarrow> result
                    | Some cs \<Rightarrow>
                        if length cs > 0
                        then result @ [10] @ exportContent this cs (level + 1)
                        else result)
      in result # exportListChildren this isOrdered level (index + 1) rest)"
| "exportSection this (DocumentItem ty tx lv fm ch md rw nr nc) level =
     (case ch of None \<Rightarrow> [] | Some cs \<Rightarrow> exportContent this cs level)"
  by pat_completeness auto
termination
  by (relation "measure (\<lambda>x. case x of
         Inl (Inl (this, item, level)) \<Rightarrow> 2 * size item + 1
       | Inl (Inr (Inl (this, items, level))) \<Rightarrow> 2 * size_list size items
       | Inl (Inr (Inr (this, items, level))) \<Rightarrow> 2 * size_list size items + 1
       | Inr (Inl (this, item, level)) \<Rightarrow> 2 * size item
       | Inr (Inr (Inl (this, ord, level, index, items))) \<Rightarrow> 2 * size_list size items
       | Inr (Inr (Inr (this, item, level))) \<Rightarrow> 2 * size item)")
     (auto split: option.splits)









section \<open>Buffers and the runtime\<close>

type_synonym byte = "8 word"
type_synonym Buffer = "byte list"

text \<open>\<open>buffer[i]\<close>: \<open>undefined\<close> (here \<open>None\<close>) beyond the end.\<close>

definition byte_at :: "Buffer \<Rightarrow> nat \<Rightarrow> byte option" where
  "byte_at buffer i = (if i < length buffer then Some (buffer ! i) else None)"

text \<open>
  \<open>buffer.toString('utf-8')\<close>. The decoder goes through the bytes with the code point
  read so far, the number of continuation bytes still needed and the range allowed for
  the next byte; an ill-formed sequence decodes to U+FFFD (65533) and the byte that
  broke it is read again. A code point beyond U+FFFF becomes a surrogate pair.
\<close>

definition code_units :: "nat \<Rightarrow> jstring" where
  "code_units cp =
     (if cp < 65536 then [cp]
      else [55296 + (cp - 65536) div 1024, 56320 + (cp - 65536) mod 1024])"

function utf8_decode :: "nat \<Rightarrow> nat \<Rightarrow> nat \<Rightarrow> nat \<Rightarrow> nat list \<Rightarrow> jstring" where
  "utf8_decode cp needed lower upper [] = (if needed = 0 then [] else [65533])"
| "utf8_decode cp needed lower upper (b # bs) =
     (if needed = 0 then
        (if b \<le> 127 then b # utf8_decode 0 0 128 191 bs
         else if 194 \<le> b \<and> b \<le> 223 then utf8_decode (b mod 32) 1 128 191 bs
         else if 224 \<le> b \<and> b \<le> 239 then
           utf8_decode (b mod 16) 2 (if b = 224 then 160 else 128) (if b = 237 then 159 else 191) bs
         else if 240 \<le> b \<and> b \<le> 244 then
           utf8_decode (b mod 8) 3 (if b = 240 then 144 else 128) (if b = 244 then 143 else 191) bs
         else 65533 # utf8_decode 0 0 128 191 bs)
      else if b < lower \<or> upper < b then 65533 # utf8_decode 0 0 128 191 (b # bs)
      else if needed = 1 then code_units (cp * 64 + b mod 64) @ utf8_decode 0 0 128 191 bs
      else utf8_decode (cp * 64 + b mod 64) (needed - 1) 128 191 bs)"
  by pat_completeness auto
termination
  by (relation "measure (\<lambda>(cp, needed, lower, upper, bs).
                  2 * length bs + (if needed = 0 then 0 else 1))") auto

definition toString :: "Buffer \<Rightarrow> jstring" where
  "toString buffer = utf8_decode 0 0 128 191 (map unat buffer)"

text \<open>\<open>buffer.toString('utf-8', 0, stop)\<close>\<close>

definition toString_to :: "Buffer \<Rightarrow> nat \<Rightarrow> jstring" where
  "toString_to buffer stop = toString (take stop buffer)"

text \<open>\<open>Buffer.from(s)\<close> for a string of ASCII characters.\<close>

definition Buffer_from :: "string \<Rightarrow> Buffer" where
  "Buffer_from s = map (\<lambda>c. of_nat (of_char c)) s"

text \<open>
  A thrown value: an \<open>Error\<close> with its message, or any other value with the string
  \<open>String(value)\<close> gives. \<open>error_message\<close> is
  \<open>error instanceof Error ? error.message : String(error)\<close>.
\<close>

datatype thrown = Error jstring | NonError jstring

definition error_message :: "thrown \<Rightarrow> jstring" where
  "error_message e = (case e of Error m \<Rightarrow> m | NonError s \<Rightarrow> s)"

text \<open>The value \<open>JSON.parse\<close> returns; a number is kept as its literal.\<close>

datatype json =
  JsonNull | JsonBool bool | JsonNumber jstring | JsonString jstring
  | JsonArray "json list" | JsonObject "(jstring \<times> json) list"

text \<open>An entry of the directory \<open>unzipper.Open.buffer\<close> returns.\<close>

datatype EntryType = File | Directory

record Entry =
  entry_type :: EntryType
  entry_path :: jstring
  entry_buffer :: "thrown + Buffer"

text \<open>
  What the code reaches outside the repository: the file system
  (\<open>fs.promises.readFile\<close>), \<open>JSON.parse\<close> (\<open>None\<close> when it throws a SyntaxError; the
  object's entries carry each key once), and the optional module \<open>unzipper\<close> with its
  \<open>Open.buffer\<close> (\<open>None\<close> when the module is not installed).
\<close>

record env =
  readFile :: "jstring \<Rightarrow> thrown + Buffer"
  JSON_parse :: "jstring \<Rightarrow> json option"
  unzipper :: "(Buffer \<Rightarrow> thrown + Entry list) option"

text \<open>The \<open>source\<close> argument, \<open>string | Buffer\<close>.\<close>

datatype source = Path jstring | Buf Buffer

text \<open>\<open>Buffer.isBuffer(source) ? source : await fs.promises.readFile(source)\<close>\<close>

definition read_source :: "env \<Rightarrow> source \<Rightarrow> thrown + Buffer" where
  "read_source e src = (case src of Buf b \<Rightarrow> Inr b | Path p \<Rightarrow> readFile e p)"

text \<open>
  \<open>path.extname\<close> (POSIX): trailing slashes are skipped, the last path component is
  taken, and the extension runs from its last dot to its end; there is none when the
  component has no dot, starts with its only dot, or is \<open>..\<close>.
\<close>

definition extname :: "jstring \<Rightarrow> jstring" where
  "extname path =
     (let trimmed = rev (dropWhile (\<lambda>c. c = 47) (rev path));
          base = rev (takeWhile (\<lambda>c. c \<noteq> 47) (rev trimmed));
          ext = rev (takeWhile (\<lambda>c. c \<noteq> 46) (rev base))
      in if 46 \<notin> set base then []
         else if length ext + 1 = length base then []
         else if base = [46, 46] then []
         else 46 # ext)"

section \<open>Format detection\<close>

text \<open>The string value of each member of the enum \<open>InputFormat\<close>.\<close>

fun String_format :: "InputFormat \<Rightarrow> jstring" where
  "String_format PDF = str ''pdf''"
| "String_format DOCX = str ''docx''"
| "String_format PPTX = str ''pptx''"
| "String_format XLSX = str ''xlsx''"
| "String_format HTML = str ''html''"
| "String_format VTT = str ''vtt''"
| "String_format SRT = str ''srt''"
| "String_format InputFormat.IMAGE = str ''image''"
| "String_format CSV = str ''csv''"
| "String_format JSON = str ''json''"
| "String_format InputFormat.TEXT = str ''text''"
| "String_format XML = str ''xml''"
| "String_format RSS = str ''rss''"
| "String_format ATOM = str ''atom''"
| "String_format ZIP = str ''zip''"
| "String_format YOUTUBE = str ''youtube''"
| "String_format BING_SERP = str ''bing_serp''"
| "String_format IPYNB = str ''ipynb''"

text \<open>
  What \<open>mapping[ext] || null\<close> evaluates to. \<open>mapping\<close> is an object literal, so besides
  its own keys it answers to the two lower-case names it inherits from
  \<open>Object.prototype\<close>: \<open>constructor\<close> (the function \<open>Object\<close>) and \<open>__proto__\<close>
  (the prototype object). Both are truthy and neither is a member of \<open>InputFormat\<close>.
\<close>

datatype detected = Format InputFormat | ObjectConstructor | ObjectPrototype


definition mapping :: "(jstring \<times> InputFormat) list" where
  "mapping =
     [(str ''pdf'', PDF), (str ''docx'', DOCX), (str ''pptx'', PPTX), (str ''xlsx'', XLSX),
      (str ''html'', HTML), (str ''htm'', HTML), (str ''vtt'', VTT), (str ''srt'', SRT),
      (str ''png'', InputFormat.IMAGE), (str ''jpg'', InputFormat.IMAGE),
      (str ''jpeg'', InputFormat.IMAGE), (str ''tiff'', InputFormat.IMAGE),
      (str ''tif'', InputFormat.IMAGE), (str ''csv'', CSV), (str ''json'', JSON),
      (str ''txt'', InputFormat.TEXT), (str ''xml'', XML), (str ''rss'', RSS),
      (str ''atom'', ATOM), (str ''zip'', ZIP), (str ''ipynb'', IPYNB)]"

definition extensionToFormat :: "jstring \<Rightarrow> detected option" where
  "extensionToFormat ext =
     (case map_of mapping ext of
        Some f \<Rightarrow> Some (Format f)
      | None \<Rightarrow>
          if ext = str ''constructor'' then Some ObjectConstructor
          else if ext = str ''__proto__'' then Some ObjectPrototype
          else None)"

text \<open>\<open>path.extname(name).toLowerCase().slice(1)\<close>\<close>

definition extension_of :: "jstring \<Rightarrow> jstring" where
  "extension_of name = drop 1 (toLowerCase (extname name))"

text \<open>
  \<open>looksLikeCSV\<close>: the first five lines, the blank ones dropped; at least two must
  remain.
\<close>

definition count_commas :: "jstring \<Rightarrow> nat" where
  "count_commas line = length (filter (\<lambda>c. c = 44) line)"

definition looksLikeCSV :: "jstring \<Rightarrow> bool" where
  "looksLikeCSV text =
     (let lines = filter (\<lambda>l. trim l \<noteq> []) (take 5 (split 10 text))
      in if length lines < 2 then False
         else (let commaCounts = map count_commas lines;
                   firstCount = hd commaCounts
               in firstCount > 0
                  \<and> list_all (\<lambda>c. nat \<bar>int c - int firstCount\<bar> \<le> 1) commaCounts))"

text \<open>
  The test \<open>/^\d+\s*\n\d{2}:\d{2}/\<close>: all the leading digits (at least one), then a run
  of white space that ends with a line feed, then two digits, a colon and two digits.
\<close>

definition isDigit :: "jchar \<Rightarrow> bool" where
  "isDigit c = (48 \<le> c \<and> c \<le> 57)"

definition srt_head :: "jstring \<Rightarrow> bool" where
  "srt_head header =
     (let ds = takeWhile isDigit header;
          r1 = dropWhile isDigit header;
          ws = takeWhile isWhiteSpace r1;
          r2 = dropWhile isWhiteSpace r1
      in ds \<noteq> [] \<and> ws \<noteq> [] \<and> last ws = 10
         \<and> (case r2 of a # b # c # d # e # _ \<Rightarrow>
               isDigit a \<and> isDigit b \<and> c = 58 \<and> isDigit d \<and> isDigit e
             | _ \<Rightarrow> False))"

text \<open>\<open>jsonData && jsonData.cells && Array.isArray(jsonData.cells)\<close>\<close>

definition has_cells_array :: "json \<Rightarrow> bool" where
  "has_cells_array jsonData =
     (case jsonData of
        JsonObject entries \<Rightarrow>
          (case map_of entries (str ''cells'') of Some (JsonArray cells) \<Rightarrow> True | _ \<Rightarrow> False)
      | _ \<Rightarrow> False)"

definition isValidJSON :: "env \<Rightarrow> jstring \<Rightarrow> bool" where
  "isValidJSON e text = (JSON_parse e text \<noteq> None)"

text \<open>
  The body of \<open>detectFormatFromContent\<close> once the buffer is at hand. \<open>otherwise\<close> is
  the code after the XML block (JSON, then CSV), which the XML block falls through to
  when none of its tests returns.
\<close>

definition detectFormatFromBuffer :: "env \<Rightarrow> Buffer \<Rightarrow> InputFormat option" where
  "detectFormatFromBuffer e buffer =
     (let header = toString_to buffer 100;
          fullContent = toString_to buffer (min (length buffer) 10000);
          otherwise =
            (let trimmed = trim header
             in if (startsWith trimmed (str ''{'') \<or> startsWith trimmed (str ''[''))
                   \<and> isValidJSON e (toString buffer) then
                  (case JSON_parse e (toString buffer) of
                     Some jsonData \<Rightarrow> if has_cells_array jsonData then Some IPYNB else Some JSON
                   | None \<Rightarrow> Some JSON)
                else if looksLikeCSV header then Some CSV
                else None)
      in if startsWith header (str ''%PDF-'') then Some PDF
         else if byte_at buffer 0 = Some 0x50 \<and> byte_at buffer 1 = Some 0x4b
                 \<and> byte_at buffer 2 = Some 0x03 \<and> byte_at buffer 3 = Some 0x04 then
           (let content = toString buffer
            in if str_includes content (str ''word/'') then Some DOCX
               else if str_includes content (str ''ppt/'') then Some PPTX
               else if str_includes content (str ''xl/'') then Some XLSX
               else Some ZIP)
         else if str_includes header (str ''<html'') \<or> str_includes header (str ''<!DOCTYPE'') then
           (if str_includes fullContent (str ''bing.com'')
               \<and> (str_includes fullContent (str ''b_algo'')
                    \<or> str_includes fullContent (str ''b_searchboxSubmit''))
            then Some BING_SERP
            else Some HTML)
         else if startsWith header (str ''WEBVTT'') then Some VTT
         else if srt_head header then Some SRT
         else if startsWith (trim header) (str ''<?xml'') \<or> startsWith (trim header) (str ''<'') then
           (if str_includes header (str ''<rss'') then Some RSS
            else if str_includes header (str ''<feed'') then Some ATOM
            else if str_includes header (str ''<'') then Some XML
            else otherwise)
         else otherwise)"

definition detectFormatFromContent :: "env \<Rightarrow> source \<Rightarrow> thrown + InputFormat option" where
  "detectFormatFromContent e src =
     (case read_source e src of
        Inl ex \<Rightarrow> Inl ex
      | Inr buffer \<Rightarrow> Inr (detectFormatFromBuffer e buffer))"

text \<open>\<open>detectFormat\<close>: the file name's extension, then the path's, then the content.\<close>

definition detectFormat :: "env \<Rightarrow> source \<Rightarrow> jstring option \<Rightarrow> thrown + detected option" where
  "detectFormat e src filename =
     (case (case filename of
              Some name \<Rightarrow> if name \<noteq> [] then extensionToFormat (extension_of name) else None
            | None \<Rightarrow> None) of
        Some formatFromExt \<Rightarrow> Inr (Some formatFromExt)
      | None \<Rightarrow>
          (case (case src of Path p \<Rightarrow> extensionToFormat (extension_of p) | Buf b \<Rightarrow> None) of
             Some formatFromExt \<Rightarrow> Inr (Some formatFromExt)
           | None \<Rightarrow>
               (case detectFormatFromContent e src of
                  Inl ex \<Rightarrow> Inl ex
                | Inr None \<Rightarrow> Inr None
                | Inr (Some f) \<Rightarrow> Inr (Some (Format f)))))"

section \<open>The dispatcher\<close>






section \<open>Backends that build tables\<close>

text \<open>\<open>text.split(/\r?\n/)\<close>: a line ends at a line feed, with the carriage return before it.\<close>

fun split_lines :: "jstring \<Rightarrow> jstring list" where
  "split_lines [] = [[]]"
| "split_lines [c] = (if c = 10 then [[], []] else [[c]])"
| "split_lines (c # d # cs) =
     (if c = 10 then [] # split_lines (d # cs)
      else if c = 13 \<and> d = 10 then [] # split_lines cs
      else (case split_lines (d # cs) of [] \<Rightarrow> [[c]] | l # ls \<Rightarrow> (c # l) # ls))"

text \<open>
  The character loop of \<open>parseCSV\<close> over one line, with \<open>cells\<close>, \<open>currentCell\<close> and
  \<open>inQuotes\<close> as they stand before the next character.
\<close>

fun parse_line :: "jstring \<Rightarrow> jstring list \<Rightarrow> jstring \<Rightarrow> bool \<Rightarrow> jstring list" where
  "parse_line [] cells currentCell inQuotes = cells @ [trim currentCell]"
| "parse_line (char # rest) cells currentCell inQuotes =
     (if char = 34 then parse_line rest cells currentCell (\<not> inQuotes)
      else if char = 44 \<and> \<not> inQuotes then parse_line rest (cells @ [trim currentCell]) [] inQuotes
      else parse_line rest cells (currentCell @ [char]) inQuotes)"

text \<open>\<open>Math.max(...xs)\<close> on lengths; \<open>parseCSV\<close> calls it with at least one row.\<close>

definition Math_max :: "nat list \<Rightarrow> nat" where
  "Math_max xs = fold max xs 0"

text \<open>\<open>PlainTextBackend.parseCSV(text, content)\<close>: the content after the call.\<close>

definition parseCSV :: "jstring \<Rightarrow> DocumentItem list \<Rightarrow> DocumentItem list" where
  "parseCSV text content =
     (let lines = filter (\<lambda>line. trim line \<noteq> []) (split_lines text)
      in if length lines = 0 then content
         else (let rows = map (\<lambda>line. parse_line line [] [] False) lines
               in if length rows = 0 then content
                  else (let numCols = Math_max (map length rows);
                            tableRows =
                              map (\<lambda>(i, row).
                                     map (\<lambda>j. \<lparr>cell_text = (if j < length row then row ! j else []),
                                               rowSpan = None, colSpan = None,
                                               isHeader = Some (i = 0)\<rparr>)
                                       [0..<numCols])
                                (enumerate 0 rows)
                        in content
                           @ [DocumentItem TABLE None None None None None
                                (Some tableRows) (Some (length tableRows)) (Some numCols)])))"

text \<open>
  A cell value as ExcelJS hands it over in \<open>row.values\<close>, and \<open>formatCellValue\<close>. An
  object that is none of the recognised kinds prints as \<open>[object Object]\<close>.
\<close>

datatype CellValue =
  CellPrimitive jsval | CellRichText "jstring list" | CellFormula jsval
  | CellHyperlink jstring | CellDate jstring

definition formatCellValue :: "CellValue \<Rightarrow> jstring" where
  "formatCellValue cell =
     (case cell of
        CellPrimitive v \<Rightarrow> (if v = JNull \<or> v = JUndefined then [] else String_val v)
      | CellRichText parts \<Rightarrow> concat parts
      | CellFormula result \<Rightarrow>
          (if result \<noteq> JUndefined then String_val result else str ''[object Object]'')
      | CellHyperlink t \<Rightarrow> (if t \<noteq> [] then t else str ''[object Object]'')
      | CellDate isoString \<Rightarrow> isoString)"

text \<open>
  A worksheet as \<open>eachRow\<close> walks it: its name and its rows, each with its number and
  its \<open>values\<close> (whose index 0 is not a cell).
\<close>

record Row =
  row_number :: nat
  row_values :: "CellValue list"

record Worksheet =
  sheet_name :: jstring
  sheet_rows :: "Row list"

text \<open>The callback \<open>XLSXBackend.convert\<close> passes to \<open>workbook.eachSheet\<close>: the items it pushes.\<close>

definition worksheet_items :: "Worksheet \<Rightarrow> DocumentItem list" where
  "worksheet_items worksheet =
     (let heading = DocumentItem HEADING (Some (sheet_name worksheet)) (Some 1)
                      None None None None None None;
          rows = map (\<lambda>row. map (\<lambda>cell. \<lparr>cell_text = formatCellValue cell, rowSpan = None,
                                          colSpan = None, isHeader = Some (row_number row = 1)\<rparr>)
                               (drop 1 (row_values row)))
                   (sheet_rows worksheet)
      in if length rows > 0
         then [heading,
               DocumentItem TABLE None None None None None
                 (Some rows) (Some (length rows))
                 (Some (case rows of [] \<Rightarrow> 0 | row0 # _ \<Rightarrow> length row0))]
         else [heading])"

section \<open>The ZIP backend\<close>

definition paragraph_item :: "jstring \<Rightarrow> DocumentItem" where
  "paragraph_item t = DocumentItem PARAGRAPH (Some t) None None None None None None None"

definition code_item :: "jstring \<Rightarrow> jstring \<Rightarrow> DocumentItem" where
  "code_item t language =
     DocumentItem CODE (Some t) None None None (Some [(''language'', JStr language)])
       None None None"

definition textExtensions :: "jstring list" where
  "textExtensions =
     [str ''.txt'', str ''.md'', str ''.json'', str ''.xml'', str ''.csv'', str ''.html'',
      str ''.css'', str ''.js'', str ''.ts'']"

text \<open>\<open>addRawFileContent(buffer, ext, content)\<close>: the content after the call.\<close>

definition addRawFileContent :: "Buffer \<Rightarrow> jstring \<Rightarrow> DocumentItem list \<Rightarrow> DocumentItem list" where
  "addRawFileContent buffer ext content =
     (if toLowerCase ext \<in> set textExtensions then
        (let text = toString buffer
         in if length text < 10000 then content @ [code_item text (drop 1 ext)]
            else content
                 @ [paragraph_item (str ''File is too large to display ('' @ String_nat (length buffer)
                               @ str '' bytes). Showing first 1000 characters:''),
                    code_item (take 1000 text @ [10, 10] @ str ''... (truncated)'') (drop 1 ext)])
      else content @ [paragraph_item (str ''Binary file ('' @ String_nat (length buffer) @ str '' bytes)'')])"

text \<open>The parent converter's \<open>convert\<close> method, as the ZIP backend calls it.\<close>

type_synonym converter = "source \<Rightarrow> jstring option \<Rightarrow> thrown + ConversionResult"


text \<open>
  The loop over \<open>directory.files\<close>. It returns the content as it stands when the loop
  ends, and the exception that ended it early, if any: \<open>entry.buffer()\<close> is not inside
  the inner \<open>try\<close>.
\<close>

fun process_entries ::
  "converter option \<Rightarrow> Entry list \<Rightarrow> DocumentItem list \<Rightarrow> DocumentItem list \<times> thrown option"
where
  "process_entries parentConverter [] content = (content, None)"
| "process_entries parentConverter (entry # entries) content =
     (if entry_type entry = File then
        (let relativePath = entry_path entry
         in case entry_buffer entry of
              Inl ex \<Rightarrow> (content, Some ex)
            | Inr entryBuffer \<Rightarrow>
                (let content = content
                       @ [DocumentItem HEADING (Some (str ''File: '' @ relativePath)) (Some 2)
                            None None None None None None];
                     ext = extname relativePath;
                     content =
                       (case parentConverter of
                          Some parent_convert \<Rightarrow>
                            (case parent_convert (Buf entryBuffer) (Some relativePath) of
                               Inl ex \<Rightarrow>
                                 content
                                 @ [paragraph_item (str ''Error converting file: '' @ error_message ex)]
                             | Inr result \<Rightarrow>
                                 (case (if status result = SUCCESS then document result else None) of
                                    Some doc \<Rightarrow> content @ doc_content doc
                                  | None \<Rightarrow> addRawFileContent entryBuffer ext content))
                        | None \<Rightarrow> addRawFileContent entryBuffer ext content)
                 in process_entries parentConverter entries content))
      else process_entries parentConverter entries content)"



section \<open>Reference formulations and example inputs\<close>


text \<open>
  A runtime for the examples: no file can be read, \<open>JSON.parse\<close> rejects every text and
  \<open>unzipper\<close> is not installed.
\<close>

definition bare_env :: env where
  "bare_env = \<lparr>readFile = (\<lambda>p. Inl (Error (str ''ENOENT''))), JSON_parse = (\<lambda>t. None),
                unzipper = None\<rparr>"


text \<open>
  The dimensions the data model asks of a table item: \<open>numRows\<close> is the number of rows
  and \<open>numCols\<close> is the greatest row length, 0 when there is no row.
\<close>

definition table_dimensions_hold :: "DocumentItem \<Rightarrow> bool" where
  "table_dimensions_hold item =
     (case item_rows item of
        None \<Rightarrow> True
      | Some rows \<Rightarrow>
          item_numRows item = Some (length rows)
          \<and> item_numCols item = Some (if rows = [] then 0 else Max (set (map length rows))))"




section \<open>Evaluation of the string functions\<close>

lemmas string_eval =
  str_def trim_def isWhiteSpace_def isDigit_def count_commas_def startsWith_def toLowerCase_def
  extname_def extension_of_def Buffer_from_def toString_def toString_to_def byte_at_def

lemmas detect_eval =
  detectFormat_def extensionToFormat_def mapping_def detectFormatFromContent_def
  detectFormatFromBuffer_def read_source_def srt_head_def isValidJSON_def looksLikeCSV_def
  bare_env_def


section \<open>The dispatcher never throws\<close>



section \<open>A successful conversion\<close>




section \<open>Table dimensions\<close>

text \<open>
  C3 asks \<open>numCols\<close> to be the greatest row length. The XLSX backend stores the length
  of the first row instead: a sheet whose first row has one cell and whose second row
  has two gets \<open>numCols = 1\<close>, where the greatest row length is 2.
\<close>

theorem worksheet_numCols_is_first_row_length:
  "worksheet_items
     \<lparr>sheet_name = str ''Sheet1'',
      sheet_rows =
        [\<lparr>row_number = 1, row_values = [CellPrimitive JUndefined, CellPrimitive (JStr (str ''a''))]\<rparr>,
         \<lparr>row_number = 2, row_values = [CellPrimitive JUndefined, CellPrimitive (JStr (str ''b'')),
                                         CellPrimitive (JStr (str ''c''))]\<rparr>]\<rparr>
   = [DocumentItem HEADING (Some (str ''Sheet1'')) (Some 1) None None None None None None,
      DocumentItem TABLE None None None None None
        (Some [[\<lparr>cell_text = str ''a'', rowSpan = None, colSpan = None, isHeader = Some True\<rparr>],
               [\<lparr>cell_text = str ''b'', rowSpan = None, colSpan = None, isHeader = Some False\<rparr>,
                \<lparr>cell_text = str ''c'', rowSpan = None, colSpan = None, isHeader = Some False\<rparr>]])
        (Some 2) (Some 1)]
   \<and> Max (set (map length
        [[\<lparr>cell_text = str ''a'', rowSpan = None, colSpan = None, isHeader = Some True\<rparr>],
         [\<lparr>cell_text = str ''b'', rowSpan = None, colSpan = None, isHeader = Some False\<rparr>,
          \<lparr>cell_text = str ''c'', rowSpan = None, colSpan = None, isHeader = Some False\<rparr>]])) = 2
   \<and> \<not> list_all table_dimensions_hold
        (worksheet_items
           \<lparr>sheet_name = str ''Sheet1'',
            sheet_rows =
              [\<lparr>row_number = 1, row_values = [CellPrimitive JUndefined, CellPrimitive (JStr (str ''a''))]\<rparr>,
               \<lparr>row_number = 2, row_values = [CellPrimitive JUndefined, CellPrimitive (JStr (str ''b'')),
                                               CellPrimitive (JStr (str ''c''))]\<rparr>]\<rparr>)"
  by (simp add: worksheet_items_def formatCellValue_def String_val_def Math_max_def
       table_dimensions_hold_def)

lemma Math_max_Max: "xs \<noteq> [] \<Longrightarrow> Math_max xs = Max (set xs)"
proof -
  assume ne: "xs \<noteq> []"
  have "fold max xs 0 = Max (set (0 # xs))"
    by (simp only: Max.set_eq_fold)
  also have "\<dots> = max 0 (Max (set xs))"
    using ne by simp
  finally show ?thesis
    by (simp add: Math_max_def)
qed

lemma Math_max_replicate: "0 < n \<Longrightarrow> Math_max (replicate n c) = c"
  by (simp add: Math_max_Max)

text \<open>\<open>parseCSV\<close>, in contrast, computes the maximum and pads every row to it.\<close>

lemma parseCSV_table_dimensions:
  assumes "list_all table_dimensions_hold content"
  shows "list_all table_dimensions_hold (parseCSV text content)"
proof -
  let ?lines = "filter (\<lambda>line. trim line \<noteq> []) (split_lines text)"
  let ?rows = "map (\<lambda>line. parse_line line [] [] False) ?lines"
  let ?n = "Math_max (map length ?rows)"
  let ?tableRows = "map (\<lambda>(i, row).
                           map (\<lambda>j. \<lparr>cell_text = (if j < length row then row ! j else []),
                                     rowSpan = None, colSpan = None, isHeader = Some (i = 0)\<rparr>)
                             [0..<?n])
                      (enumerate 0 ?rows)"
  show ?thesis
  proof (cases "?lines = []")
    case True
    with assms show ?thesis by (simp add: parseCSV_def)
  next
    case False
    have lens: "map length ?tableRows = replicate (length ?lines) ?n"
      by (simp add: map_replicate_const comp_def case_prod_unfold)
    have "Max (set (map length ?tableRows)) = ?n"
      using False by (simp only: lens) simp
    moreover have "length ?tableRows = length ?lines"
      by simp
    then have "?tableRows \<noteq> []"
      using False by (metis length_0_conv)
    ultimately have "table_dimensions_hold
                 (DocumentItem TABLE None None None None None
                    (Some ?tableRows) (Some (length ?tableRows)) (Some ?n))"
      by (simp add: table_dimensions_hold_def)
    with assms False show ?thesis by (simp add: parseCSV_def Let_def)
  qed
qed

section \<open>Detection by extension\<close>

lemma extension_of_Nil: "extension_of [] = []"
  by (simp add: extension_of_def extname_def toLowerCase_def)

lemma mapping_keys_distinct: "distinct (map fst mapping)"
  by (simp add: mapping_def str_def)

lemma mapping_key_nonempty: "(ext, f) \<in> set mapping \<Longrightarrow> ext \<noteq> []"
  by (auto simp: mapping_def str_def)

text \<open>
  C4, as stated, has \<open>.srt\<close> and \<open>.vtt\<close> map to one id \<open>SUBTITLE\<close>. The enum has no such
  member: the two extensions are detected as the two ids \<open>srt\<close> and \<open>vtt\<close>.
\<close>

theorem subtitle_extensions_counterexample:
  "detectFormat bare_env (Buf []) (Some (str ''movie.srt'')) = Inr (Some (Format SRT))
   \<and> detectFormat bare_env (Buf []) (Some (str ''movie.vtt'')) = Inr (Some (Format VTT))
   \<and> String_format SRT = str ''srt'' \<and> String_format VTT = str ''vtt''
   \<and> detectFormat bare_env (Buf []) (Some (str ''movie.srt''))
       \<noteq> detectFormat bare_env (Buf []) (Some (str ''movie.vtt''))"
  by (simp add: detect_eval string_eval)

text \<open>
  C4, amended. The table of \<open>extensionToFormat\<close> is the one below, with \<open>.srt\<close> for
  \<open>SRT\<close> and \<open>.vtt\<close> for \<open>VTT\<close>. A file name whose lower-cased extension is a key of the
  table is detected as the table's format, whatever the source and its content are.
\<close>

theorem detectFormat_extension_first:
  "mapping =
     [(str ''pdf'', PDF), (str ''docx'', DOCX), (str ''pptx'', PPTX), (str ''xlsx'', XLSX),
      (str ''html'', HTML), (str ''htm'', HTML), (str ''vtt'', VTT), (str ''srt'', SRT),
      (str ''png'', InputFormat.IMAGE), (str ''jpg'', InputFormat.IMAGE),
      (str ''jpeg'', InputFormat.IMAGE), (str ''tiff'', InputFormat.IMAGE),
      (str ''tif'', InputFormat.IMAGE), (str ''csv'', CSV), (str ''json'', JSON),
      (str ''txt'', InputFormat.TEXT), (str ''xml'', XML), (str ''rss'', RSS),
      (str ''atom'', ATOM), (str ''zip'', ZIP), (str ''ipynb'', IPYNB)]
   \<and> ((extension_of name, f) \<in> set mapping \<longrightarrow>
        detectFormat e src (Some name) = Inr (Some (Format f)))"
proof (intro conjI impI)
  show "mapping =
     [(str ''pdf'', PDF), (str ''docx'', DOCX), (str ''pptx'', PPTX), (str ''xlsx'', XLSX),
      (str ''html'', HTML), (str ''htm'', HTML), (str ''vtt'', VTT), (str ''srt'', SRT),
      (str ''png'', InputFormat.IMAGE), (str ''jpg'', InputFormat.IMAGE),
      (str ''jpeg'', InputFormat.IMAGE), (str ''tiff'', InputFormat.IMAGE),
      (str ''tif'', InputFormat.IMAGE), (str ''csv'', CSV), (str ''json'', JSON),
      (str ''txt'', InputFormat.TEXT), (str ''xml'', XML), (str ''rss'', RSS),
      (str ''atom'', ATOM), (str ''zip'', ZIP), (str ''ipynb'', IPYNB)]"
    by (rule mapping_def)
  assume m: "(extension_of name, f) \<in> set mapping"
  then have look: "map_of mapping (extension_of name) = Some f"
    using mapping_keys_distinct by (simp add: map_of_is_SomeI)
  have "extension_of name \<noteq> []"
    using m by (rule mapping_key_nonempty)
  then have "name \<noteq> []"
    using extension_of_Nil by auto
  with look show "detectFormat e src (Some name) = Inr (Some (Format f))"
    by (simp add: detectFormat_def extensionToFormat_def)
qed

text \<open>
  A buffer of RSS markup is detected as \<open>rss\<close> without a file name and as \<open>text\<close> under
  the name \<open>Feed.TXT\<close>.
\<close>

theorem detectFormat_extension_first_witness:
  "detectFormat bare_env (Buf (Buffer_from ''<?xml version=1.0?><rss version=2.0>'')) None
     = Inr (Some (Format RSS))
   \<and> detectFormat bare_env (Buf (Buffer_from ''<?xml version=1.0?><rss version=2.0>''))
       (Some (str ''Feed.TXT''))
     = Inr (Some (Format InputFormat.TEXT))"
proof -
  have "(extension_of (str ''Feed.TXT''), InputFormat.TEXT) \<in> set mapping"
    by (simp add: mapping_def string_eval)
  then have "detectFormat bare_env (Buf (Buffer_from ''<?xml version=1.0?><rss version=2.0>''))
       (Some (str ''Feed.TXT'')) = Inr (Some (Format InputFormat.TEXT))"
    using detectFormat_extension_first
      [of "str ''Feed.TXT''" InputFormat.TEXT bare_env
          "Buf (Buffer_from ''<?xml version=1.0?><rss version=2.0>'')"]
    by simp
  moreover have "detectFormat bare_env
       (Buf (Buffer_from ''<?xml version=1.0?><rss version=2.0>'')) None
     = Inr (Some (Format RSS))"
    by (simp add: detect_eval string_eval)
  ultimately show ?thesis by simp
qed

section \<open>The CSV heuristic\<close>









section \<open>The ZIP signature\<close>




section \<open>Archive expansion\<close>








lemma addRawFileContent_prefix: "prefix content (addRawFileContent buffer ext content)"
  by (simp add: addRawFileContent_def Let_def)

lemma process_entries_keeps_content:
  "prefix content (fst (process_entries parent entries content))"
proof (induction entries arbitrary: content)
  case Nil
  then show ?case by simp
next
  case (Cons entry entries)
  show ?case
  proof (cases "entry_type entry = File")
    case False
    then show ?thesis using Cons.IH by simp
  next
    case True
    show ?thesis
    proof (cases "entry_buffer entry")
      case (Inl ex)
      with True show ?thesis by simp
    next
      case (Inr entryBuffer)
      let ?h = "DocumentItem HEADING (Some (str ''File: '' @ entry_path entry)) (Some 2)
                  None None None None None None"
      obtain next_content where step:
        "process_entries parent (entry # entries) content
           = process_entries parent entries next_content"
        and grows: "prefix (content @ [?h]) next_content"
        using True Inr addRawFileContent_prefix [of "content @ [?h]" entryBuffer "extname (entry_path entry)"]
        by (auto simp: Let_def split: option.splits sum.splits)
      have "prefix next_content (fst (process_entries parent entries next_content))"
        by (rule Cons.IH)
      with grows have "prefix (content @ [?h]) (fst (process_entries parent entries next_content))"
        by (rule prefix_order.trans)
      then show ?thesis
        using step by (auto dest: append_prefixD)
    qed
  qed
qed

text \<open>
  Whatever the parent converter answers for an entry, a result or an exception, the loop
  goes on to the next entry: when the bytes of every file entry can be extracted, the
  loop ends normally and the heading of every file entry is in the content.
\<close>

lemma process_entries_visits_every_entry:
  assumes "\<forall>entry\<in>set entries. entry_type entry = File \<longrightarrow> (\<exists>bytes. entry_buffer entry = Inr bytes)"
  shows "snd (process_entries parent entries content) = None
         \<and> (\<forall>entry\<in>set entries. entry_type entry = File \<longrightarrow>
               DocumentItem HEADING (Some (str ''File: '' @ entry_path entry)) (Some 2)
                 None None None None None None
               \<in> set (fst (process_entries parent entries content)))"
  using assms
proof (induction entries arbitrary: content)
  case Nil
  then show ?case by simp
next
  case (Cons entry entries)
  then have rest: "\<forall>entry\<in>set entries. entry_type entry = File \<longrightarrow> (\<exists>bytes. entry_buffer entry = Inr bytes)"
    by simp
  show ?case
  proof (cases "entry_type entry = File")
    case False
    then show ?thesis using Cons.IH [OF rest] by simp
  next
    case True
    with Cons.prems obtain entryBuffer where buf: "entry_buffer entry = Inr entryBuffer"
      by auto
    let ?h = "DocumentItem HEADING (Some (str ''File: '' @ entry_path entry)) (Some 2)
                  None None None None None None"
    obtain next_content where step:
        "process_entries parent (entry # entries) content
           = process_entries parent entries next_content"
        and grows: "prefix (content @ [?h]) next_content"
      using True buf addRawFileContent_prefix [of "content @ [?h]" entryBuffer "extname (entry_path entry)"]
      by (auto simp: Let_def split: option.splits sum.splits)
    have "prefix next_content (fst (process_entries parent entries next_content))"
      by (rule process_entries_keeps_content)
    with grows have "prefix (content @ [?h]) (fst (process_entries parent entries next_content))"
      by (rule prefix_order.trans)
    then have "?h \<in> set (fst (process_entries parent entries next_content))"
      by (auto dest: set_mono_prefix)
    then show ?thesis
      using step Cons.IH [OF rest, of next_content] by simp
  qed
qed

text \<open>
  An entry whose bytes cannot be extracted ends the loop: the entries after it are not
  looked at.
\<close>

lemma process_entries_stops_at_unreadable_entry:
  "entry_type entry = File \<Longrightarrow> entry_buffer entry = Inl ex \<Longrightarrow>
   process_entries parent (entry # entries) content = (content, Some ex)"
  by simp










section \<open>Headings\<close>




section \<open>Tables\<close>




section \<open>Determinism of the exporter\<close>



end
